theory Spec2Isabelle
  imports Main "HOL-Library.Extended_Nat" "HOL-Library.Char_ord" "HOL-Library.List_Lexorder"
begin

section \<open>Company matching by normalised URL keys\<close>

text \<open>
  A shallow embedding of the URL preprocessor (\<^verbatim>\<open>preprocessor.py\<close>), the matcher
  (\<^verbatim>\<open>matcher.py\<close>) and the duplicate pass (\<^verbatim>\<open>postprocess.py\<close>).

  Python strings are lists of characters; one \<^typ>\<open>char\<close> stands for one code point
  below 256. A distance is an extended natural number, so that \<^verbatim>\<open>float('inf')\<close>
  is \<open>\<infinity>\<close>; Python's \<^verbatim>\<open>None\<close> is \<open>None\<close>.
\<close>

subsection \<open>Errors\<close>

text \<open>
  A Python exception is a value: a function that may raise returns \<open>Inl\<close> of the error
  or \<open>Inr\<close> of its result.
\<close>

datatype error =
    FileNotFoundError string
  | EmptyDataError
  | ValueError string
  | KeyError string
  | IndexError
  | MergeError

text \<open>\<^verbatim>\<open>xs[-1]\<close> raises on an empty list.\<close>

definition py_last :: "'a list \<Rightarrow> error + 'a" where
  "py_last xs = (case xs of [] \<Rightarrow> Inl IndexError | _ # _ \<Rightarrow> Inr (last xs))"

subsection \<open>Fuzzy and exact matching of keys (preprocessor.py)\<close>

text \<open>
  The edit distance of the \<^verbatim>\<open>polyleven\<close> library: the least number of single
  character insertions, deletions and substitutions turning one string into the other.
\<close>

fun levenshtein :: "string \<Rightarrow> string \<Rightarrow> nat" where
  "levenshtein [] ys = length ys"
| "levenshtein (x # xs) [] = Suc (length xs)"
| "levenshtein (x # xs) (y # ys) =
     min (min (Suc (levenshtein xs (y # ys))) (Suc (levenshtein (x # xs) ys)))
         (levenshtein xs ys + (if x = y then 0 else 1))"

text \<open>
  The loop of \<^verbatim>\<open>find_best_match_with_distance_poly\<close>, with its two loop variables
  \<^verbatim>\<open>best_match\<close> and \<^verbatim>\<open>min_distance\<close> as the accumulator.
\<close>

fun best_match_loop :: "string \<Rightarrow> string list \<Rightarrow> string option \<times> enat \<Rightarrow> string option \<times> enat" where
  "best_match_loop cd_company [] acc = acc"
| "best_match_loop cd_company (crm_company # rest) (best_match, min_distance) =
     (let dist = levenshtein cd_company crm_company
      in if enat dist < min_distance
         then best_match_loop cd_company rest (Some crm_company, enat dist)
         else best_match_loop cd_company rest (best_match, min_distance))"

definition find_best_match_with_distance_poly :: "string \<Rightarrow> string list \<Rightarrow> string option \<times> enat" where
  "find_best_match_with_distance_poly cd_company crm_companys =
     best_match_loop cd_company crm_companys (None, \<infinity>)"

text \<open>
  \<^verbatim>\<open>process_companys\<close>: the match type is \<^verbatim>\<open>"exact"\<close>, \<^verbatim>\<open>"fuzzy"\<close> or
  \<^verbatim>\<open>None\<close>; every value other than \<^verbatim>\<open>"exact"\<close> takes the fuzzy branch. The exact
  branch, a list comprehension over the left items, works on items of any type; the
  matcher calls it on the cells of two columns.
\<close>

definition exact_results :: "'a list \<Rightarrow> 'a list \<Rightarrow> ('a \<times> 'a option \<times> enat) list" where
  "exact_results crm_companys cd_companys =
     (let set1 = set cd_companys
      in map (\<lambda>item. if item \<in> set1 then (item, Some item, 0) else (item, None, \<infinity>))
             crm_companys)"

definition process_companys ::
  "string list \<Rightarrow> string list \<Rightarrow> string option \<Rightarrow> (string \<times> string option \<times> enat) list" where
  "process_companys crm_companys cd_companys match_type =
     (if match_type = Some ''exact''
      then exact_results crm_companys cd_companys
      else map (\<lambda>crm_company.
                  (case find_best_match_with_distance_poly crm_company cd_companys of
                     (best_match, distance) \<Rightarrow> (crm_company, best_match, distance)))
               crm_companys)"

subsection \<open>Strings\<close>

text \<open>
  \<^verbatim>\<open>str.lower\<close> on code points below 256: the letters A to Z and the capital letters
  of the Latin-1 block (192 to 222 without the multiplication sign 215) move up by 32.
\<close>

definition lower_char :: "char \<Rightarrow> char" where
  "lower_char c =
     (let n = (of_char c :: nat)
      in if (65 \<le> n \<and> n \<le> 90) \<or> (192 \<le> n \<and> n \<le> 222 \<and> n \<noteq> 215)
         then char_of (n + 32) else c)"

definition lower :: "string \<Rightarrow> string" where
  "lower s = map lower_char s"

text \<open>
  The class \<^verbatim>\<open>\w\<close> of a regular expression over \<^verbatim>\<open>str\<close>, on code points below
  256: the alphanumeric characters (digits, letters, and the letters and numeric
  characters of the Latin-1 block, as \<^verbatim>\<open>str.isalnum\<close> has them) and the underscore.
\<close>

definition is_alnum_char :: "char \<Rightarrow> bool" where
  "is_alnum_char c \<longleftrightarrow>
     (let n = (of_char c :: nat)
      in (48 \<le> n \<and> n \<le> 57) \<or> (65 \<le> n \<and> n \<le> 90) \<or> (97 \<le> n \<and> n \<le> 122) \<or>
         n = 170 \<or> n = 178 \<or> n = 179 \<or> n = 181 \<or> n = 185 \<or> n = 186 \<or>
         (188 \<le> n \<and> n \<le> 190) \<or> (192 \<le> n \<and> n \<le> 214) \<or> (216 \<le> n \<and> n \<le> 246) \<or>
         248 \<le> n)"

definition is_word_char :: "char \<Rightarrow> bool" where
  "is_word_char c \<longleftrightarrow> is_alnum_char c \<or> c = CHR ''_''"

definition startswith :: "string \<Rightarrow> string \<Rightarrow> bool" where
  "startswith p s \<longleftrightarrow> take (length p) s = p"

text \<open>\<^verbatim>\<open>sub in s\<close> and \<^verbatim>\<open>s.find(sub)\<close>.\<close>

fun contains :: "string \<Rightarrow> string \<Rightarrow> bool" where
  "contains sub [] = (sub = [])"
| "contains sub (c # cs) = (startswith sub (c # cs) \<or> contains sub cs)"

fun find_sub :: "string \<Rightarrow> string \<Rightarrow> nat option" where
  "find_sub sub [] = (if sub = [] then Some 0 else None)"
| "find_sub sub (c # cs) =
     (if startswith sub (c # cs) then Some 0 else map_option Suc (find_sub sub cs))"

text \<open>\<^verbatim>\<open>s.split(sep)\<close> for a separator of one character, and \<^verbatim>\<open>sep.join(parts)\<close>.\<close>

fun split_on :: "char \<Rightarrow> string \<Rightarrow> string list" where
  "split_on sep [] = [[]]"
| "split_on sep (c # cs) =
     (if c = sep then [] # split_on sep cs
      else (case split_on sep cs of [] \<Rightarrow> [[c]] | p # ps \<Rightarrow> (c # p) # ps))"

fun join_with :: "string \<Rightarrow> string list \<Rightarrow> string" where
  "join_with sep [] = []"
| "join_with sep [x] = x"
| "join_with sep (x # y # zs) = x @ sep @ join_with sep (y # zs)"

definition rstrip_chars :: "(char \<Rightarrow> bool) \<Rightarrow> string \<Rightarrow> string" where
  "rstrip_chars P s = rev (dropWhile P (rev s))"

subsection \<open>The URL parser of the library\<close>

text \<open>
  \<^verbatim>\<open>tldextract.extract(url)\<close> returns the subdomain, the domain and the public suffix of
  the host of a URL. The extraction below takes this function as a parameter \<open>tld\<close>.
\<close>

record ExtractResult =
  subdomain :: string
  domain :: string
  suffix :: string

text \<open>
  Modelled from the spec: step 2 of the key extractor (parse the URL into subdomain,
  registrable domain and public suffix, longest matching public suffix) and the
  documented behaviour of \<^verbatim>\<open>tldextract\<close>, which is not part of the repository. The
  scheme, the path, the query, the fragment, the user info and the port are removed, the
  host is split at dots, and the longest run of trailing labels that is an entry of the
  suffix list \<open>psl\<close> is the suffix; labels are compared in lower case and returned as
  written. A host without a known suffix has an empty suffix and its last label as the
  domain. Wildcard rules of the suffix list, punycode and IP literals are not modelled.
  This model only instantiates \<open>tld\<close> in closed examples.
\<close>

definition is_scheme_char :: "char \<Rightarrow> bool" where
  "is_scheme_char c \<longleftrightarrow>
     (let n = (of_char c :: nat)
      in (48 \<le> n \<and> n \<le> 57) \<or> (65 \<le> n \<and> n \<le> 90) \<or> (97 \<le> n \<and> n \<le> 122) \<or>
         c = CHR ''+'' \<or> c = CHR ''-'' \<or> c = CHR ''.'')"

definition schemeless_url :: "string \<Rightarrow> string" where
  "schemeless_url url =
     (case find_sub ''//'' url of
        None \<Rightarrow> url
      | Some k \<Rightarrow>
          if k = 0 then drop 2 url
          else if k < 2 \<or> url ! (k - 1) \<noteq> CHR '':'' \<or> \<not> list_all is_scheme_char (take (k - 1) url)
          then url
          else drop (k + 2) url)"

definition is_space :: "char \<Rightarrow> bool" where
  "is_space c \<longleftrightarrow>
     (let n = (of_char c :: nat)
      in (9 \<le> n \<and> n \<le> 13) \<or> (28 \<le> n \<and> n \<le> 32) \<or> n = 133 \<or> n = 160)"

definition lenient_netloc :: "string \<Rightarrow> string" where
  "lenient_netloc url =
     (let after_path = takeWhile (\<lambda>c. c \<noteq> CHR ''#'')
                         (takeWhile (\<lambda>c. c \<noteq> CHR ''?'')
                            (takeWhile (\<lambda>c. c \<noteq> CHR ''/'') (schemeless_url url)));
          after_userinfo = rev (takeWhile (\<lambda>c. c \<noteq> CHR ''@'') (rev after_path));
          hostname = rstrip_chars is_space
                       (dropWhile is_space (takeWhile (\<lambda>c. c \<noteq> CHR '':'') after_userinfo))
      in rstrip_chars (\<lambda>c. c = CHR ''.'') hostname)"

fun suffix_index :: "string list \<Rightarrow> string list \<Rightarrow> nat" where
  "suffix_index psl [] = 0"
| "suffix_index psl (l # ls) =
     (if join_with ''.'' (map lower (l # ls)) \<in> set psl then 0
      else Suc (suffix_index psl ls))"

definition tldextract_extract :: "string list \<Rightarrow> string \<Rightarrow> ExtractResult" where
  "tldextract_extract psl url =
     (let labels = split_on (CHR ''.'') (lenient_netloc url);
          i = suffix_index psl labels
      in \<lparr>subdomain = (if 2 \<le> i then join_with ''.'' (take (i - 1) labels) else []),
          domain = (if i \<noteq> 0 then labels ! (i - 1) else []),
          suffix = (if i \<noteq> length labels then join_with ''.'' (drop i labels) else [])\<rparr>)"

text \<open>A few entries of the public suffix list, for the examples.\<close>

definition psl_entries :: "string list" where
  "psl_entries = [''com'', ''org'', ''net'', ''io'', ''uk'', ''co.uk'', ''in'', ''co.in'', ''de'']"

subsection \<open>The key extractor (preprocessor.py)\<close>

text \<open>
  \<^verbatim>\<open>urllib.parse.unquote\<close> returns a string without a percent sign as it is; the
  decoding of the escapes of any other string (UTF-8, invalid sequences replaced) is the
  parameter \<open>dec\<close>.
\<close>

definition unquote :: "(string \<Rightarrow> string) \<Rightarrow> string \<Rightarrow> string" where
  "unquote dec s = (if CHR ''%'' \<in> set s then dec s else s)"

text \<open>
  \<^verbatim>\<open>re.sub(r'(\?.*)|(\/about.*)', '', url)\<close>: from a question mark or from
  \<^verbatim>\<open>/about\<close> on, the rest of the line is removed; the dot of the pattern does not
  match a line feed, after which the scan goes on.
\<close>

function remove_query_and_about :: "string \<Rightarrow> string" where
  "remove_query_and_about [] = []"
| "remove_query_and_about (c # cs) =
     (if c = CHR ''?'' \<or> startswith ''/about'' (c # cs)
      then remove_query_and_about (dropWhile (\<lambda>d. d \<noteq> CHR 0x0A) cs)
      else c # remove_query_and_about cs)"
  by pat_completeness auto
termination
  by (relation "measure length") (auto simp: le_imp_less_Suc length_dropWhile_le)

definition preprocess_linkedin_url :: "(string \<Rightarrow> string) \<Rightarrow> string \<Rightarrow> error + string" where
  "preprocess_linkedin_url dec url0 =
     (let url1 = remove_query_and_about url0;
          url = unquote dec url1;
          entity =
            (if contains ''/company/'' url
             then py_last (split_on (CHR ''/'') (rstrip_chars (\<lambda>c. c = CHR ''/'') url))
             else if contains ''/in/'' url
             then py_last (split_on (CHR ''/'') (rstrip_chars (\<lambda>c. c = CHR ''/'') url))
             else Inr url)
      in case entity of
           Inl e \<Rightarrow> Inl e
         | Inr entity_name \<Rightarrow>
             Inr (filter (\<lambda>c. is_word_char c \<or> c = CHR ''-'') (lower entity_name)))"

definition country_codes :: "string list" where
  "country_codes =
   [
    ''ac'', ''ad'', ''ae'', ''af'', ''ag'', ''ai'', ''al'', ''am'', ''ao'', ''aq'', ''ar'',
     ''as'', ''at'', ''au'', ''aw'', ''ax'', ''az'', ''ba'', ''bb'', ''bd'', ''be'',
     ''bf'', ''bg'', ''bh'', ''bi'', ''bj'', ''bl'', ''bm'', ''bn'', ''bo'', ''bq'',
     ''br'', ''bs'', ''bt'', ''bv'', ''bw'', ''by'', ''bz'', ''ca'', ''cc'', ''cd'',
     ''cf'', ''cg'', ''ch'', ''ci'', ''ck'', ''cl'', ''cm'', ''cn'', ''co'', ''cr'',
     ''cu'', ''cv'', ''cw'', ''cx'', ''cy'', ''cz'', ''de'', ''dj'', ''dk'', ''dm'',
     ''do'', ''dz'', ''ec'', ''ee'', ''eg'', ''eh'', ''er'', ''es'', ''et'', ''eu'',
     ''fi'', ''fj'', ''fk'', ''fm'', ''fo'', ''fr'', ''ga'', ''gb'', ''gd'', ''ge'',
     ''gf'', ''gg'', ''gh'', ''gi'', ''gl'', ''gm'', ''gn'', ''gp'', ''gq'', ''gr'',
     ''gs'', ''gt'', ''gu'', ''gw'', ''gy'', ''hk'', ''hm'', ''hn'', ''hr'', ''ht'',
     ''hu'', ''id'', ''ie'', ''il'', ''im'', ''in'', ''io'', ''iq'', ''ir'', ''is'',
     ''it'', ''je'', ''jm'', ''jo'', ''jp'', ''ke'', ''kg'', ''kh'', ''ki'', ''km'',
     ''kn'', ''kp'', ''kr'', ''kw'', ''ky'', ''kz'', ''la'', ''lb'', ''lc'', ''li'',
     ''lk'', ''lr'', ''ls'', ''lt'', ''lu'', ''lv'', ''ly'', ''ma'', ''mc'', ''md'',
     ''me'', ''mf'', ''mg'', ''mh'', ''mk'', ''ml'', ''mm'', ''mn'', ''mo'', ''mp'',
     ''mq'', ''mr'', ''ms'', ''mt'', ''mu'', ''mv'', ''mw'', ''mx'', ''my'', ''mz'',
     ''na'', ''nc'', ''ne'', ''nf'', ''ng'', ''ni'', ''nl'', ''no'', ''np'', ''nr'',
     ''nu'', ''nz'', ''om'', ''pa'', ''pe'', ''pf'', ''pg'', ''ph'', ''pk'', ''pl'',
     ''pm'', ''pn'', ''pr'', ''ps'', ''pt'', ''pw'', ''py'', ''qa'', ''re'', ''ro'',
     ''rs'', ''ru'', ''rw'', ''sa'', ''sb'', ''sc'', ''sd'', ''se'', ''sg'', ''sh'',
     ''si'', ''sk'', ''sl'', ''sm'', ''sn'', ''so'', ''sr'', ''ss'', ''st'', ''sv'',
     ''sx'', ''sy'', ''sz'', ''tc'', ''td'', ''tf'', ''tg'', ''th'', ''tj'', ''tk'',
     ''tl'', ''tm'', ''tn'', ''to'', ''tr'', ''tt'', ''tv'', ''tw'', ''tz'', ''ua'',
     ''ug'', ''uk'', ''us'', ''uy'', ''uz'', ''va'', ''vc'', ''ve'', ''vg'', ''vi'',
     ''vn'', ''vu'', ''wf'', ''ws'', ''ye'', ''yt'', ''za'', ''zm'', ''zw''
   ]"

definition common_suffixes :: "string list" where
  "common_suffixes = [''business'', ''webflow'', ''site'', ''com'']"

definition common_prefixes :: "string list" where
  "common_prefixes =
     [''www'', ''web'', ''corp'', ''corporate'', ''about'', ''info'', ''shop'', ''company'']"

definition social_hosts :: "string list" where
  "social_hosts = [''facebook'', ''zaubacorp'', ''linkedin'']"

text \<open>\<^verbatim>\<open>re.sub(r'^https?://http//', 'http://', url)\<close>.\<close>

definition fix_doubled_scheme :: "string \<Rightarrow> string" where
  "fix_doubled_scheme url =
     (if startswith ''https://http//'' url then ''http://'' @ drop 14 url
      else if startswith ''http://http//'' url then ''http://'' @ drop 13 url
      else url)"

text \<open>The standard path of the extractor, from the parsed host to the key.\<close>

definition domain_key :: "ExtractResult \<Rightarrow> string" where
  "domain_key extracted =
     (let full_domain = domain extracted @ ''.'' @ suffix extracted;
          company_name =
            (if subdomain extracted \<noteq> [] \<and>
                (domain extracted \<in> set country_codes \<or> domain extracted \<in> set common_suffixes)
             then subdomain extracted @ ''.'' @ full_domain
             else full_domain);
          domain_parts = split_on (CHR ''.'') company_name;
          cleaned_domain_parts =
            filter (\<lambda>part. lower part \<notin> set common_prefixes) domain_parts
      in lower (join_with ''.'' cleaned_domain_parts))"

definition extract_domain_and_company ::
  "(string \<Rightarrow> ExtractResult) \<Rightarrow> (string \<Rightarrow> string) \<Rightarrow> string \<Rightarrow> error + string" where
  "extract_domain_and_company tld dec url0 =
     (let url = fix_doubled_scheme url0;
          extracted = tld url
      in if domain extracted \<in> set social_hosts
         then (case preprocess_linkedin_url dec url of
                 Inl e \<Rightarrow> Inl e
               | Inr linkedin_processed \<Rightarrow>
                   if linkedin_processed \<noteq> [] then Inr linkedin_processed
                   else Inr (domain_key extracted))
         else Inr (domain_key extracted))"






subsection \<open>Tables\<close>

text \<open>
  A pandas DataFrame: the column labels in order, and the rows, each row holding one cell
  per column. A cell is modelled by its text; the null value (\<^verbatim>\<open>NaN\<close>,
  \<^verbatim>\<open>None\<close>) is \<open>None\<close>.
\<close>

type_synonym cell = "string option"

type_synonym label = string

type_synonym path = string

record dataframe =
  columns :: "string list"
  rows :: "cell list list"

text \<open>The cell of a row at a column position; a row too short has no value there.\<close>

definition cell_at :: "cell list \<Rightarrow> nat \<Rightarrow> cell" where
  "cell_at r i = (if i < length r then r ! i else None)"

definition df_empty :: "dataframe \<Rightarrow> bool" where
  "df_empty df \<longleftrightarrow> columns df = [] \<or> rows df = []"

subsection \<open>Column operations\<close>

text \<open>
  The position of a column label; \<^verbatim>\<open>df[col]\<close> raises \<^verbatim>\<open>KeyError\<close> on a missing
  label; \<^verbatim>\<open>df[col] = values\<close> overwrites the column or appends it as the last one;
  \<^verbatim>\<open>df[[c1, ..., cn]]\<close> is the table of the listed columns in that order.
\<close>

fun col_index :: "string list \<Rightarrow> string \<Rightarrow> nat option" where
  "col_index [] c = None"
| "col_index (x # xs) c = (if x = c then Some 0 else map_option Suc (col_index xs c))"

definition get_col :: "dataframe \<Rightarrow> string \<Rightarrow> error + cell list" where
  "get_col df c =
     (case col_index (columns df) c of
        None \<Rightarrow> Inl (KeyError c)
      | Some i \<Rightarrow> Inr (map (\<lambda>r. cell_at r i) (rows df)))"

definition set_col :: "dataframe \<Rightarrow> string \<Rightarrow> cell list \<Rightarrow> dataframe" where
  "set_col df c vs =
     (case col_index (columns df) c of
        None \<Rightarrow> \<lparr>columns = columns df @ [c], rows = map (\<lambda>(r, v). r @ [v]) (zip (rows df) vs)\<rparr>
      | Some i \<Rightarrow> \<lparr>columns = columns df, rows = map (\<lambda>(r, v). r[i := v]) (zip (rows df) vs)\<rparr>)"

definition select_cols :: "dataframe \<Rightarrow> string list \<Rightarrow> error + dataframe" where
  "select_cols df cs =
     (case filter (\<lambda>c. col_index (columns df) c = None) cs of
        missing # _ \<Rightarrow> Inl (KeyError missing)
      | [] \<Rightarrow>
          Inr \<lparr>columns = cs,
               rows = map (\<lambda>r. map (\<lambda>c. cell_at r (the (col_index (columns df) c))) cs) (rows df)\<rparr>)"

text \<open>
  \<^verbatim>\<open>dropna(subset=cols)\<close> keeps the rows without a null value in the listed columns;
  \<^verbatim>\<open>astype(str)\<close> gives the text of a cell, \<^verbatim>\<open>nan\<close> for the null value.
\<close>

definition dropna :: "dataframe \<Rightarrow> string list \<Rightarrow> dataframe" where
  "dropna df cols =
     \<lparr>columns = columns df,
      rows = filter (\<lambda>r. list_all (\<lambda>c. case col_index (columns df) c of
                                          None \<Rightarrow> True
                                        | Some i \<Rightarrow> cell_at r i \<noteq> None) cols)
                    (rows df)\<rparr>"

fun astype_str :: "cell \<Rightarrow> string" where
  "astype_str None = ''nan''"
| "astype_str (Some s) = s"

text \<open>
  \<^verbatim>\<open>pd.merge(left, right, left_on=a, right_on=b)\<close>: the inner join. Every left row, in
  order, is paired with every right row, in order, whose key is equal; null keys are equal
  to each other. A label found on both sides gets the suffix \<^verbatim>\<open>_x\<close> on the left and
  \<^verbatim>\<open>_y\<close> on the right, and the labels of the result must be distinct.
\<close>

definition merge :: "dataframe \<Rightarrow> dataframe \<Rightarrow> string \<Rightarrow> string \<Rightarrow> error + dataframe" where
  "merge left right left_on right_on =
     (case col_index (columns left) left_on of
        None \<Rightarrow> Inl (KeyError left_on)
      | Some i \<Rightarrow>
          (case col_index (columns right) right_on of
             None \<Rightarrow> Inl (KeyError right_on)
           | Some j \<Rightarrow>
               let names =
                     map (\<lambda>c. if c \<in> set (columns right) then c @ ''_x'' else c) (columns left) @
                     map (\<lambda>c. if c \<in> set (columns left) then c @ ''_y'' else c) (columns right)
               in if \<not> distinct names then Inl MergeError
                  else Inr \<lparr>columns = names,
                            rows = concat (map (\<lambda>l. map (\<lambda>r. l @ r)
                                                      (filter (\<lambda>r. cell_at r j = cell_at l i)
                                                              (rows right)))
                                               (rows left))\<rparr>))"

subsection \<open>The matcher (matcher.py)\<close>

text \<open>
  The files are a map from paths to tables: what \<^verbatim>\<open>pd.read_csv\<close> reads and what
  \<^verbatim>\<open>to_csv\<close> writes. A file without any column is a blank file. Writing always
  succeeds. A function that catches its exceptions and returns \<^verbatim>\<open>None\<close> returns
  \<open>Inl\<close> of the error it logs.
\<close>

type_synonym files = "path \<rightharpoonup> dataframe"

definition load_clean_and_rename_dataframe ::
  "files \<Rightarrow> path \<Rightarrow> label \<Rightarrow> label \<Rightarrow> (label \<rightharpoonup> label) \<Rightarrow> error + dataframe" where
  "load_clean_and_rename_dataframe fs file_path id_column url_column rename_dict =
     (case fs file_path of
        None \<Rightarrow> Inl (FileNotFoundError (''The file '' @ file_path @ '' does not exist.''))
      | Some df0 \<Rightarrow>
          if columns df0 = [] then Inl EmptyDataError
          else if df_empty df0
          then Inl (ValueError (''The loaded DataFrame from '' @ file_path @ '' is empty.''))
          else
            let df = \<lparr>columns = map (\<lambda>c. case rename_dict c of None \<Rightarrow> c | Some c' \<Rightarrow> c')
                                     (columns df0),
                      rows = rows df0\<rparr>
            in if id_column \<notin> set (columns df) \<or> url_column \<notin> set (columns df)
               then Inl (KeyError (''Required columns '' @ id_column @ '' or '' @ url_column @
                                   '' not found in the DataFrame.''))
               else Inr (dropna df [id_column, url_column]))"

text \<open>The extraction applied to a column of URLs; the first error raised ends it.\<close>

fun extract_all ::
  "(string \<Rightarrow> ExtractResult) \<Rightarrow> (string \<Rightarrow> string) \<Rightarrow> string list \<Rightarrow> error + string list" where
  "extract_all tld dec [] = Inr []"
| "extract_all tld dec (url # urls) =
     (case extract_domain_and_company tld dec url of
        Inl e \<Rightarrow> Inl e
      | Inr key \<Rightarrow>
          (case extract_all tld dec urls of
             Inl e \<Rightarrow> Inl e
           | Inr keys \<Rightarrow> Inr (key # keys)))"

definition preprocess_urls ::
  "(string \<Rightarrow> ExtractResult) \<Rightarrow> (string \<Rightarrow> string) \<Rightarrow> dataframe \<Rightarrow> string \<Rightarrow> string \<Rightarrow>
   error + dataframe" where
  "preprocess_urls tld dec df url_column company_column =
     (if df_empty df then Inl (ValueError ''Input DataFrame is None or empty.'')
      else
        (case get_col df url_column of
           Inl e \<Rightarrow> Inl e
         | Inr cells \<Rightarrow>
             let urls = map astype_str cells;
                 df' = set_col df url_column (map Some urls)
             in (case extract_all tld dec urls of
                   Inl e \<Rightarrow> Inl e
                 | Inr keys \<Rightarrow> Inr (set_col df' company_column (map Some keys)))))"

text \<open>
  \<^verbatim>\<open>match_companies\<close> adds the column \<^verbatim>\<open>exact_match\<close> to its first table in place:
  the table as it is afterwards is the first component of the result. A left key without
  an equal right key has the null value there.
\<close>

definition match_companies ::
  "dataframe \<Rightarrow> dataframe \<Rightarrow> label \<Rightarrow> label \<Rightarrow> label \<Rightarrow> label \<Rightarrow> label \<Rightarrow> label \<Rightarrow>
   dataframe \<times> (error + dataframe)" where
  "match_companies df1 df2 company_col1 company_col2 id_col1 id_col2 url_col1 url_col2 =
     (if df_empty df1 \<or> df_empty df2
      then (df1, Inl (ValueError ''One or both input DataFrames are None or empty.''))
      else
        (case get_col df1 company_col1 of
           Inl e \<Rightarrow> (df1, Inl e)
         | Inr keys1 \<Rightarrow>
             (case get_col df2 company_col2 of
                Inl e \<Rightarrow> (df1, Inl e)
              | Inr keys2 \<Rightarrow>
                  let results = exact_results keys1 keys2;
                      df1' = set_col df1 ''exact_match''
                               (map (\<lambda>(_, match, _). case match of None \<Rightarrow> None | Some c \<Rightarrow> c)
                                    results)
                  in (df1',
                      case merge df1' df2 ''exact_match'' company_col2 of
                        Inl e \<Rightarrow> Inl e
                      | Inr result_df \<Rightarrow>
                          select_cols result_df
                            [id_col1, id_col2, url_col1, url_col2, company_col1, company_col2]))))"

text \<open>
  \<^verbatim>\<open>save_results\<close> logs its own error and writes nothing when both tables are empty;
  otherwise it writes the matched table, then the unmatched table. The result is the list
  of the errors logged and the files afterwards.
\<close>

definition save_results ::
  "files \<Rightarrow> dataframe \<Rightarrow> dataframe \<Rightarrow> string \<Rightarrow> string \<Rightarrow> error list \<times> files" where
  "save_results fs matched_df unmatched_df matched_path unmatched_path =
     (if df_empty matched_df \<and> df_empty unmatched_df
      then ([ValueError ''Both matched and unmatched DataFrames are empty''], fs)
      else ([], (fs(matched_path \<mapsto> matched_df))(unmatched_path \<mapsto> unmatched_df)))"

text \<open>
  The rows of the left table whose identifier is not among the identifiers of the matched
  table, with the identifier and the URL column:
  \<^verbatim>\<open>df1[~df1[id_col1].isin(matched_df[id_col1])][[id_col1, url_col1]]\<close>.
\<close>

definition unmatched_rows :: "dataframe \<Rightarrow> dataframe \<Rightarrow> string \<Rightarrow> string \<Rightarrow> error + dataframe" where
  "unmatched_rows df1 matched_df id_col1 url_col1 =
     (case col_index (columns df1) id_col1 of
        None \<Rightarrow> Inl (KeyError id_col1)
      | Some i \<Rightarrow>
          (case get_col matched_df id_col1 of
             Inl e \<Rightarrow> Inl e
           | Inr matched_ids \<Rightarrow>
               select_cols
                 \<lparr>columns = columns df1,
                  rows = filter (\<lambda>r. cell_at r i \<notin> set matched_ids) (rows df1)\<rparr>
                 [id_col1, url_col1]))"

definition logged :: "error + 'a \<Rightarrow> error list" where
  "logged r = (case r of Inl e \<Rightarrow> [e] | Inr _ \<Rightarrow> [])"

text \<open>
  \<^verbatim>\<open>process\<close>: one matching operation. Both tables are loaded, then both are
  preprocessed, before the results are looked at. Its result is the list of the errors
  logged, in order, and the files afterwards.
\<close>

definition process ::
  "(string \<Rightarrow> ExtractResult) \<Rightarrow> (string \<Rightarrow> string) \<Rightarrow> files \<Rightarrow>
   path \<Rightarrow> path \<Rightarrow> label \<Rightarrow> label \<Rightarrow> label \<Rightarrow> label \<Rightarrow> label \<Rightarrow> label \<Rightarrow> path \<Rightarrow> path \<Rightarrow>
   (label \<rightharpoonup> label) \<Rightarrow> (label \<rightharpoonup> label) \<Rightarrow> error list \<times> files" where
  "process tld dec fs file_path1 file_path2 id_col1 id_col2 url_col1 url_col2
     company_col1 company_col2 matched_path unmatched_path rename_dict1 rename_dict2 =
     (let loaded1 = load_clean_and_rename_dataframe fs file_path1 id_col1 url_col1 rename_dict1;
          loaded2 = load_clean_and_rename_dataframe fs file_path2 id_col2 url_col2 rename_dict2
      in case (loaded1, loaded2) of
           (Inr df1, Inr df2) \<Rightarrow>
             (let pre1 = preprocess_urls tld dec df1 url_col1 company_col1;
                  pre2 = preprocess_urls tld dec df2 url_col2 company_col2
              in case (pre1, pre2) of
                   (Inr df1', Inr df2') \<Rightarrow>
                     (case match_companies df1' df2' company_col1 company_col2
                             id_col1 id_col2 url_col1 url_col2 of
                        (df1'', Inl e) \<Rightarrow>
                          ([e, ValueError ''Error occurred during company matching''], fs)
                      | (df1'', Inr matched_df) \<Rightarrow>
                          (case unmatched_rows df1'' matched_df id_col1 url_col1 of
                             Inl e \<Rightarrow> ([e], fs)
                           | Inr unmatched_df \<Rightarrow>
                               save_results fs matched_df unmatched_df matched_path
                                 unmatched_path))
                 | _ \<Rightarrow>
                     (logged pre1 @ logged pre2 @
                        [ValueError ''Error occurred during URL preprocessing''], fs))
         | _ \<Rightarrow>
             (logged loaded1 @ logged loaded2 @
                [ValueError ''One or both input DataFrames could not be loaded or processed''],
              fs))"

subsection \<open>The duplicate pass (postprocess.py)\<close>

text \<open>
  \<^verbatim>\<open>df.duplicated(subset=[col], keep=False)\<close> marks a row when the value of its
  column occurs in more than one row; null values count as equal to each other.
\<close>

definition duplicated :: "nat \<Rightarrow> cell list list \<Rightarrow> cell list \<Rightarrow> bool" where
  "duplicated i rs r \<longleftrightarrow> 2 \<le> length (filter (\<lambda>r'. cell_at r' i = cell_at r i) rs)"

text \<open>
  \<^verbatim>\<open>sort_values(by=[col])\<close>: ascending, null values last. Strings compare by code
  points. The relative order of rows with equal values is not fixed by the default sort
  of pandas; here they keep their order, and nothing below depends on it.
\<close>

fun cell_le :: "cell \<Rightarrow> cell \<Rightarrow> bool" where
  "cell_le _ None = True"
| "cell_le None (Some _) = False"
| "cell_le (Some a) (Some b) = (a \<le> b)"

fun insort_row :: "nat \<Rightarrow> cell list \<Rightarrow> cell list list \<Rightarrow> cell list list" where
  "insort_row i r [] = [r]"
| "insort_row i r (x # xs) =
     (if cell_le (cell_at r i) (cell_at x i) then r # x # xs else x # insort_row i r xs)"

definition sort_values :: "nat \<Rightarrow> cell list list \<Rightarrow> cell list list" where
  "sort_values i rs = foldr (insort_row i) rs []"

text \<open>
  \<^verbatim>\<open>process_matched_output\<close>, from the table read from the matched file to the two
  tables written: the rows without a duplicate (written back to the matched file) and the
  sorted rows with duplicates (written to the duplicate file). \<^verbatim>\<open>df.columns[-1]\<close>
  raises on a table without columns.
\<close>

definition process_matched_output :: "dataframe \<Rightarrow> error + (dataframe \<times> dataframe)" where
  "process_matched_output df =
     (if columns df = [] then Inl IndexError
      else
        let last_column = length (columns df) - 1;
            duplicates = filter (duplicated last_column (rows df)) (rows df);
            non_duplicates = filter (\<lambda>r. \<not> duplicated last_column (rows df) r) (rows df);
            duplicates_sorted = sort_values last_column duplicates
        in Inr (\<lparr>columns = columns df, rows = non_duplicates\<rparr>,
                \<lparr>columns = columns df, rows = duplicates_sorted\<rparr>))"

text \<open>The value of the grouping attribute of a row: its cell in the last column.\<close>

definition grouping_value :: "dataframe \<Rightarrow> cell list \<Rightarrow> cell" where
  "grouping_value df r = cell_at r (length (columns df) - 1)"

definition occurrences :: "dataframe \<Rightarrow> cell \<Rightarrow> dataframe \<Rightarrow> nat" where
  "occurrences df v t = length (filter (\<lambda>r. grouping_value df r = v) (rows t))"

text \<open>A matched table with two groups of duplicates and one row without.\<close>

definition matched_sample :: dataframe where
  "matched_sample =
     \<lparr>columns = [''id1'', ''id2'', ''key''],
      rows = [[Some ''1'', Some ''9'', Some ''zeta.org''],
              [Some ''2'', Some ''10'', Some ''acme.com''],
              [Some ''3'', Some ''11'', Some ''beta.io''],
              [Some ''4'', Some ''12'', Some ''zeta.org''],
              [Some ''5'', Some ''13'', Some ''acme.com'']]\<rparr>"

definition clean_sample :: dataframe where
  "clean_sample =
     \<lparr>columns = [''id1'', ''id2'', ''key''],
      rows = [[Some ''3'', Some ''11'', Some ''beta.io'']]\<rparr>"

definition ambiguous_sample :: dataframe where
  "ambiguous_sample =
     \<lparr>columns = [''id1'', ''id2'', ''key''],
      rows = [[Some ''2'', Some ''10'', Some ''acme.com''],
              [Some ''5'', Some ''13'', Some ''acme.com''],
              [Some ''1'', Some ''9'', Some ''zeta.org''],
              [Some ''4'', Some ''12'', Some ''zeta.org'']]\<rparr>"

text \<open>
  Sample files: a left table whose rows all have a null identifier or URL, a right table
  with one row.
\<close>

definition crm_nulls :: dataframe where
  "crm_nulls = \<lparr>columns = [''ID'', ''COMPANY_WEBSITE''], rows = [[Some ''1'', None], [None, Some ''http://acme.com'']]\<rparr>"

definition cb_one :: dataframe where
  "cb_one = \<lparr>columns = [''UUID'', ''HOMEPAGE_URL''], rows = [[Some ''9'', Some ''http://www.acme.com'']]\<rparr>"

definition files_nulls :: files where
  "files_nulls = [''crm.csv'' \<mapsto> crm_nulls, ''cb.csv'' \<mapsto> cb_one]"

text \<open>The key of a URL; the extractor always returns one (shown below).\<close>

definition key_of :: "(string \<Rightarrow> ExtractResult) \<Rightarrow> (string \<Rightarrow> string) \<Rightarrow> string \<Rightarrow> string" where
  "key_of tld dec url = (case extract_domain_and_company tld dec url of Inl _ \<Rightarrow> [] | Inr k \<Rightarrow> k)"

text \<open>Every row of a table has one cell for each column.\<close>

definition wf_df :: "dataframe \<Rightarrow> bool" where
  "wf_df df \<longleftrightarrow> list_all (\<lambda>r. length r = length (columns df)) (rows df)"

text \<open>
  The cell that matching puts into the column \<^verbatim>\<open>exact_match\<close> for a left key: the key
  when a right row carries it, the null value otherwise; and the row of the matched table
  made from a left and a right row.
\<close>

definition exact_cell :: "dataframe \<Rightarrow> nat \<Rightarrow> cell \<Rightarrow> cell" where
  "exact_cell df2 k2 c = (if c \<in> (\<lambda>r. cell_at r k2) ` set (rows df2) then c else None)"



definition cb_sample :: dataframe where
  "cb_sample =
     \<lparr>columns = [''UUID'', ''HOMEPAGE_URL''],
      rows = [[Some ''9'', Some ''http://www.acme.com''],
              [Some ''10'', Some ''https://acme.com/about'']]\<rparr>"


definition crm_loaded :: dataframe where
  "crm_loaded =
     \<lparr>columns = [''CRM_ID'', ''COMPANY_WEBSITE''],
      rows = [[Some ''1'', Some ''http://acme.com''],
              [Some ''2'', Some ''http://other.org'']]\<rparr>"

definition crm_keyed :: dataframe where
  "crm_keyed =
     \<lparr>columns = [''CRM_ID'', ''COMPANY_WEBSITE'', ''crm_company''],
      rows = [[Some ''1'', Some ''http://acme.com'', Some ''acme.com''],
              [Some ''2'', Some ''http://other.org'', Some ''other.org'']]\<rparr>"

definition cb_keyed :: dataframe where
  "cb_keyed =
     \<lparr>columns = [''UUID'', ''HOMEPAGE_URL'', ''cb_company''],
      rows = [[Some ''9'', Some ''http://www.acme.com'', Some ''acme.com''],
              [Some ''10'', Some ''https://acme.com/about'', Some ''acme.com'']]\<rparr>"

section \<open>Properties\<close>

subsection \<open>Fuzzy matching\<close>

lemma best_match_loop_append:
  "best_match_loop c (xs @ ys) acc = best_match_loop c ys (best_match_loop c xs acc)"
  by (induction c xs acc rule: best_match_loop.induct) (simp_all add: Let_def)

lemma best_match_loop_first_min:
  "xs \<noteq> [] \<Longrightarrow>
   \<exists>i<length xs.
      best_match_loop c xs (None, \<infinity>) = (Some (xs ! i), enat (levenshtein c (xs ! i))) \<and>
      (\<forall>j<length xs. levenshtein c (xs ! i) \<le> levenshtein c (xs ! j)) \<and>
      (\<forall>j<i. levenshtein c (xs ! i) < levenshtein c (xs ! j))"
proof (induction xs rule: rev_induct)
  case Nil
  then show ?case by simp
next
  case (snoc x xs)
  show ?case
  proof (cases "xs = []")
    case True
    then show ?thesis by (simp add: Let_def)
  next
    case False
    from snoc.IH [OF False] obtain i where i: "i < length xs"
      and run: "best_match_loop c xs (None, \<infinity>) = (Some (xs ! i), enat (levenshtein c (xs ! i)))"
      and least: "\<forall>j<length xs. levenshtein c (xs ! i) \<le> levenshtein c (xs ! j)"
      and first: "\<forall>j<i. levenshtein c (xs ! i) < levenshtein c (xs ! j)"
      by blast
    show ?thesis
    proof (cases "levenshtein c x < levenshtein c (xs ! i)")
      case True
      have "best_match_loop c (xs @ [x]) (None, \<infinity>) = (Some x, enat (levenshtein c x))"
        using True by (simp add: best_match_loop_append run Let_def)
      moreover have "\<forall>j<length xs. levenshtein c x < levenshtein c (xs ! j)"
        using True least by (meson less_le_trans)
      ultimately show ?thesis
        by (intro exI [of _ "length xs"]) (auto simp: nth_append less_Suc_eq intro: less_imp_le)
    next
      case False
      have "best_match_loop c (xs @ [x]) (None, \<infinity>) = (Some (xs ! i), enat (levenshtein c (xs ! i)))"
        using False by (simp add: best_match_loop_append run Let_def)
      then show ?thesis
        using i least first False
        by (intro exI [of _ i]) (auto simp: nth_append less_Suc_eq)
    qed
  qed
qed

text \<open>
  C8. Under the fuzzy strategy, with a candidate pool that is not empty, each left key is
  returned with a right key of least edit distance over the whole pool and with that
  distance; among several right keys of least distance the first in iteration order is
  taken; no threshold is applied, a pair is returned whatever the distance.
\<close>

theorem fuzzy_returns_first_minimiser:
  assumes "cd_companys \<noteq> []" and "k < length crm_companys"
  shows "\<exists>i<length cd_companys.
           process_companys crm_companys cd_companys (Some ''fuzzy'') ! k =
             (crm_companys ! k, Some (cd_companys ! i),
              enat (levenshtein (crm_companys ! k) (cd_companys ! i))) \<and>
           (\<forall>j<length cd_companys.
              levenshtein (crm_companys ! k) (cd_companys ! i)
                \<le> levenshtein (crm_companys ! k) (cd_companys ! j)) \<and>
           (\<forall>j<i. levenshtein (crm_companys ! k) (cd_companys ! i)
                     < levenshtein (crm_companys ! k) (cd_companys ! j))"
proof -
  from best_match_loop_first_min [OF assms(1), of "crm_companys ! k"]
  obtain i where "i < length cd_companys"
    and "best_match_loop (crm_companys ! k) cd_companys (None, \<infinity>) =
           (Some (cd_companys ! i), enat (levenshtein (crm_companys ! k) (cd_companys ! i)))"
    and "\<forall>j<length cd_companys. levenshtein (crm_companys ! k) (cd_companys ! i)
                \<le> levenshtein (crm_companys ! k) (cd_companys ! j)"
    and "\<forall>j<i. levenshtein (crm_companys ! k) (cd_companys ! i)
                     < levenshtein (crm_companys ! k) (cd_companys ! j)"
    by blast
  then show ?thesis
    using assms(2)
    by (intro exI [of _ i]) (simp add: process_companys_def find_best_match_with_distance_poly_def)
qed

theorem fuzzy_returns_first_minimiser_witness:
  "[''dog'', ''cot'', ''cut''] \<noteq> [] \<and> (0::nat) < length [''cat''] \<and>
   (\<exists>i<length [''dog'', ''cot'', ''cut''].
      process_companys [''cat''] [''dog'', ''cot'', ''cut''] (Some ''fuzzy'') ! 0 =
        (''cat'', Some ([''dog'', ''cot'', ''cut''] ! i),
         enat (levenshtein ''cat'' ([''dog'', ''cot'', ''cut''] ! i))))"
proof -
  have a: "[''dog'', ''cot'', ''cut''] \<noteq> []" by simp
  have b: "(0::nat) < length [''cat'']" by simp
  from fuzzy_returns_first_minimiser [OF a b]
  obtain i where "i < length [''dog'', ''cot'', ''cut'']"
    and "process_companys [''cat''] [''dog'', ''cot'', ''cut''] (Some ''fuzzy'') ! 0 =
        ([''cat''] ! 0, Some ([''dog'', ''cot'', ''cut''] ! i),
         enat (levenshtein ([''cat''] ! 0) ([''dog'', ''cot'', ''cut''] ! i)))"
    by blast
  then have "\<exists>i<length [''dog'', ''cot'', ''cut''].
      process_companys [''cat''] [''dog'', ''cot'', ''cut''] (Some ''fuzzy'') ! 0 =
        (''cat'', Some ([''dog'', ''cot'', ''cut''] ! i),
         enat (levenshtein ''cat'' ([''dog'', ''cot'', ''cut''] ! i)))"
    by (intro exI [of _ i]) simp
  with a b show ?thesis by blast
qed

text \<open>
  C10. With an empty candidate pool the search returns the sentinel pair
  (no match, infinite distance) without raising, and so the fuzzy branch of
  \<open>process_companys\<close> yields the triple (left key, no match, infinite distance) for
  every left key.
\<close>

theorem fuzzy_empty_pool_sentinel:
  "find_best_match_with_distance_poly cd_company [] = (None, \<infinity>) \<and>
   process_companys crm_companys [] (Some ''fuzzy'') = map (\<lambda>k. (k, None, \<infinity>)) crm_companys \<and>
   process_companys crm_companys [] None = map (\<lambda>k. (k, None, \<infinity>)) crm_companys"
  by (simp add: find_best_match_with_distance_poly_def process_companys_def)

subsection \<open>The key extractor\<close>

lemma lower_char_idem: "lower_char (lower_char c) = lower_char c"
  using nat_of_char_less_256 [of c] by (auto simp: lower_char_def Let_def)

lemma lower_idem: "lower (lower s) = lower s"
  by (simp add: lower_def lower_char_idem)

lemma lower_append: "lower (a @ b) = lower a @ lower b"
  by (simp add: lower_def)


lemma split_on_nonempty: "split_on sep s \<noteq> []"
  by (induction s) (auto split: list.splits)




lemma py_last_split_on: "py_last (split_on sep s) = Inr (last (split_on sep s))"
  using split_on_nonempty [of sep s] by (cases "split_on sep s") (simp_all add: py_last_def)

lemma lower_filter_lower: "lower (filter P (lower s)) = filter P (lower s)"
  by (induction s) (simp_all add: lower_def lower_char_idem)

lemma lower_domain_key: "lower (domain_key p) = domain_key p"
  by (simp add: domain_key_def Let_def lower_idem)

lemma preprocess_linkedin_url_lower:
  "\<exists>k. preprocess_linkedin_url dec url = Inr k \<and> lower k = k"
  by (simp add: preprocess_linkedin_url_def Let_def py_last_split_on lower_filter_lower)

text \<open>
  C6. For every input string, whatever the parser and the decoder return, the extractor
  returns a key, never an error, and the key is in lower case: it equals its own
  lowercasing.
\<close>

theorem extract_total_lowercase:
  "\<exists>key. extract_domain_and_company tld dec url = Inr key \<and> lower key = key"
proof -
  obtain k where k: "preprocess_linkedin_url dec (fix_doubled_scheme url) = Inr k" "lower k = k"
    using preprocess_linkedin_url_lower by blast
  then show ?thesis
    by (simp add: extract_domain_and_company_def Let_def lower_domain_key)
qed













lemma lower_Cons: "lower (c # s) = lower_char c # lower s"
  by (simp add: lower_def)

lemma lower_char_of_dot: "lower_char (CHR ''.'') = CHR ''.''"
  by (simp add: lower_char_def)









subsection \<open>The matcher\<close>

lemma col_index_None_iff: "col_index xs c = None \<longleftrightarrow> c \<notin> set xs"
  by (induction xs) auto




lemma col_index_append2:
  "c \<notin> set xs \<Longrightarrow> col_index ys c = Some j \<Longrightarrow> col_index (xs @ ys) c = Some (length xs + j)"
  by (induction xs) auto





lemma cell_at_Some_less: "cell_at r i \<noteq> None \<Longrightarrow> i < length r"
  by (simp add: cell_at_def split: if_splits)

lemma zip_map_self: "zip xs (map f xs) = map (\<lambda>x. (x, f x)) xs"
  by (induction xs) auto

lemma extract_Inr: "extract_domain_and_company tld dec url = Inr (key_of tld dec url)"
proof -
  obtain k where "preprocess_linkedin_url dec (fix_doubled_scheme url) = Inr k"
    using preprocess_linkedin_url_lower by blast
  then show ?thesis
    by (simp add: key_of_def extract_domain_and_company_def Let_def)
qed

lemma extract_all_Inr: "extract_all tld dec urls = Inr (map (key_of tld dec) urls)"
  by (induction urls) (simp_all add: extract_Inr)

lemma preprocess_urls_result:
  assumes ne: "rows df \<noteq> []"
    and u: "col_index (columns df) url_column = Some u"
    and nn: "\<forall>r \<in> set (rows df). cell_at r u \<noteq> None"
    and fresh: "company_column \<notin> set (columns df)"
  shows "preprocess_urls tld dec df url_column company_column =
           Inr \<lparr>columns = columns df @ [company_column],
                rows = map (\<lambda>r. r @ [Some (key_of tld dec (astype_str (cell_at r u)))]) (rows df)\<rparr>"
proof -
  from u have cne: "columns df \<noteq> []" by auto
  have same: "map (\<lambda>(r, v). r[u := v])
                (zip (rows df) (map Some (map astype_str (map (\<lambda>r. cell_at r u) (rows df))))) = rows df"
  proof -
    have "r[u := Some (astype_str (cell_at r u))] = r" if "r \<in> set (rows df)" for r
    proof -
      from nn that obtain s where s: "cell_at r u = Some s" by auto
      then have "u < length r" "r ! u = Some s"
        by (auto simp: cell_at_def split: if_splits)
      with s show ?thesis by (metis astype_str.simps(2) list_update_id)
    qed
    then have "map (\<lambda>r. r[u := Some (astype_str (cell_at r u))]) (rows df) = map (\<lambda>r. r) (rows df)"
      by (intro map_cong) auto
    then show ?thesis
      by (simp add: zip_map_self comp_def)
  qed
  have df': "set_col df url_column (map Some (map astype_str (map (\<lambda>r. cell_at r u) (rows df)))) = df"
    unfolding set_col_def u using same by simp
  from fresh have cn: "col_index (columns df) company_column = None"
    by (simp add: col_index_None_iff)
  have g: "get_col df url_column = Inr (map (\<lambda>r. cell_at r u) (rows df))"
    by (simp add: get_col_def u)
  have "preprocess_urls tld dec df url_column company_column =
        Inr (set_col df company_column
               (map Some (map (key_of tld dec) (map astype_str (map (\<lambda>r. cell_at r u) (rows df))))))"
    unfolding preprocess_urls_def Let_def g sum.case df' extract_all_Inr
    using ne cne by (simp add: df_empty_def)
  then show ?thesis
    by (simp add: set_col_def cn zip_map_self comp_def)
qed





lemma match_companies_fst:
  assumes ne1: "rows df1 \<noteq> []" and ne2: "rows df2 \<noteq> []"
    and em: "''exact_match'' \<notin> set (columns df1)"
    and k1: "col_index (columns df1) company_col1 = Some k1"
    and k2: "col_index (columns df2) company_col2 = Some k2"
  shows "fst (match_companies df1 df2 company_col1 company_col2 id_col1 id_col2 url_col1 url_col2) =
     \<lparr>columns = columns df1 @ [''exact_match''],
      rows = map (\<lambda>l. l @ [exact_cell df2 k2 (cell_at l k1)]) (rows df1)\<rparr>"
proof -
  let ?E = "\<lambda>l. exact_cell df2 k2 (cell_at l k1)"
  from k1 k2 have cne: "columns df1 \<noteq> []" "columns df2 \<noteq> []" by auto
  from em have emi: "col_index (columns df1) ''exact_match'' = None"
    by (simp add: col_index_None_iff)
  have g1: "get_col df1 company_col1 = Inr (map (\<lambda>r. cell_at r k1) (rows df1))"
    by (simp add: get_col_def k1)
  have g2: "get_col df2 company_col2 = Inr (map (\<lambda>r. cell_at r k2) (rows df2))"
    by (simp add: get_col_def k2)
  have ex: "map (\<lambda>(_, match, _). case match of None \<Rightarrow> None | Some c \<Rightarrow> c)
              (exact_results (map (\<lambda>r. cell_at r k1) (rows df1)) (map (\<lambda>r. cell_at r k2) (rows df2)))
            = map ?E (rows df1)"
    by (simp add: exact_results_def exact_cell_def Let_def comp_def)
  have sc: "set_col df1 ''exact_match'' (map ?E (rows df1)) =
      \<lparr>columns = columns df1 @ [''exact_match''], rows = map (\<lambda>l. l @ [?E l]) (rows df1)\<rparr>"
    by (simp add: set_col_def emi zip_map_self comp_def)
  show ?thesis
    unfolding match_companies_def g1 g2 sum.case Let_def ex sc
    using ne1 ne2 cne by (simp add: df_empty_def)
qed

lemma map_take_snoc:
  assumes "\<forall>r \<in> set rs. length r = n"
  shows "map (take n) (map (\<lambda>r. r @ f r) rs) = rs"
  using assms by (induction rs) auto

text \<open>
  C9, amended. After key extraction and matching, the right table holds its original
  columns and the derived key column; the left table holds its original columns, the
  derived key column and the column \<^verbatim>\<open>exact_match\<close> that matching adds to it; the
  cells of the original columns are unchanged in both (the URL cells are not null, and a
  cell is modelled by its text).
\<close>

theorem inputs_after_matching:
  assumes wf1: "wf_df df1" and wf2: "wf_df df2"
    and ne1: "rows df1 \<noteq> []" and ne2: "rows df2 \<noteq> []"
    and u1: "col_index (columns df1) url_col1 = Some u1"
    and u2: "col_index (columns df2) url_col2 = Some u2"
    and nn1: "\<forall>r \<in> set (rows df1). cell_at r u1 \<noteq> None"
    and nn2: "\<forall>r \<in> set (rows df2). cell_at r u2 \<noteq> None"
    and f1: "company_col1 \<notin> set (columns df1)"
    and f2: "company_col2 \<notin> set (columns df2)"
    and em: "''exact_match'' \<notin> set (columns df1)" "company_col1 \<noteq> ''exact_match''"
  shows "\<exists>p1 p2.
           preprocess_urls tld dec df1 url_col1 company_col1 = Inr p1 \<and>
           preprocess_urls tld dec df2 url_col2 company_col2 = Inr p2 \<and>
           columns (fst (match_companies p1 p2 company_col1 company_col2
                           id_col1 id_col2 url_col1 url_col2)) =
             columns df1 @ [company_col1, ''exact_match''] \<and>
           map (take (length (columns df1)))
               (rows (fst (match_companies p1 p2 company_col1 company_col2
                             id_col1 id_col2 url_col1 url_col2))) = rows df1 \<and>
           columns p2 = columns df2 @ [company_col2] \<and>
           map (take (length (columns df2))) (rows p2) = rows df2"
proof -
  let ?p1 = "\<lparr>columns = columns df1 @ [company_col1],
              rows = map (\<lambda>r. r @ [Some (key_of tld dec (astype_str (cell_at r u1)))]) (rows df1)\<rparr>"
  let ?p2 = "\<lparr>columns = columns df2 @ [company_col2],
              rows = map (\<lambda>r. r @ [Some (key_of tld dec (astype_str (cell_at r u2)))]) (rows df2)\<rparr>"
  have p1: "preprocess_urls tld dec df1 url_col1 company_col1 = Inr ?p1"
    by (rule preprocess_urls_result [OF ne1 u1 nn1 f1])
  have p2: "preprocess_urls tld dec df2 url_col2 company_col2 = Inr ?p2"
    by (rule preprocess_urls_result [OF ne2 u2 nn2 f2])
  have k1: "col_index (columns ?p1) company_col1 = Some (length (columns df1))"
    using col_index_append2 [OF f1, of "[company_col1]" 0] by simp
  have k2: "col_index (columns ?p2) company_col2 = Some (length (columns df2))"
    using col_index_append2 [OF f2, of "[company_col2]" 0] by simp
  have em': "''exact_match'' \<notin> set (columns ?p1)"
    using em by auto
  have ne1': "rows ?p1 \<noteq> []" and ne2': "rows ?p2 \<noteq> []"
    using ne1 ne2 by simp_all
  note fst = match_companies_fst [OF ne1' ne2' em' k1 k2,
      of id_col1 id_col2 url_col1 url_col2]
  have len1: "\<forall>r \<in> set (rows df1). length r = length (columns df1)"
    using wf1 by (simp add: wf_df_def list_all_iff)
  have len2: "\<forall>r \<in> set (rows df2). length r = length (columns df2)"
    using wf2 by (simp add: wf_df_def list_all_iff)
  have r1: "map (take (length (columns df1)))
               (rows (fst (match_companies ?p1 ?p2 company_col1 company_col2
                             id_col1 id_col2 url_col1 url_col2))) = rows df1"
    unfolding fst
    using map_take_snoc [OF len1, of "\<lambda>r. [Some (key_of tld dec (astype_str (cell_at r u1))),
        exact_cell ?p2 (length (columns df2))
          (cell_at (r @ [Some (key_of tld dec (astype_str (cell_at r u1)))]) (length (columns df1)))]"]
    by (simp add: comp_def)
  have r2: "map (take (length (columns df2))) (rows ?p2) = rows df2"
    using map_take_snoc [OF len2, of "\<lambda>r. [Some (key_of tld dec (astype_str (cell_at r u2)))]"]
    by simp
  have c1: "columns (fst (match_companies ?p1 ?p2 company_col1 company_col2
                           id_col1 id_col2 url_col1 url_col2)) =
             columns df1 @ [company_col1, ''exact_match'']"
    unfolding fst by simp
  from p1 p2 c1 r1 r2 show ?thesis
    by (intro exI [of _ ?p1] exI [of _ ?p2]) simp
qed






lemmas eval_extract =
  extract_domain_and_company_def tldextract_extract_def psl_entries_def
  fix_doubled_scheme_def startswith_def lenient_netloc_def schemeless_url_def
  is_scheme_char_def is_space_def rstrip_chars_def lower_def lower_char_def
  preprocess_linkedin_url_def unquote_def is_word_char_def is_alnum_char_def
  social_hosts_def py_last_def domain_key_def common_prefixes_def common_suffixes_def
  country_codes_def Let_def

lemma sample_keys:
  "extract_domain_and_company (tldextract_extract psl_entries) id ''http://acme.com'' = Inr ''acme.com''"
  "extract_domain_and_company (tldextract_extract psl_entries) id ''http://other.org'' = Inr ''other.org''"
  "extract_domain_and_company (tldextract_extract psl_entries) id ''http://www.acme.com'' = Inr ''acme.com''"
  "extract_domain_and_company (tldextract_extract psl_entries) id ''https://acme.com/about'' = Inr ''acme.com''"
  by (simp_all add: eval_extract)



lemma crm_loaded_keyed:
  "preprocess_urls (tldextract_extract psl_entries) id crm_loaded ''COMPANY_WEBSITE'' ''crm_company'' =
     Inr crm_keyed"
  by (simp add: preprocess_urls_def crm_loaded_def crm_keyed_def df_empty_def get_col_def
      set_col_def cell_at_def sample_keys)

lemma cb_sample_keyed:
  "preprocess_urls (tldextract_extract psl_entries) id cb_sample ''HOMEPAGE_URL'' ''cb_company'' =
     Inr cb_keyed"
  by (simp add: preprocess_urls_def cb_sample_def cb_keyed_def df_empty_def get_col_def
      set_col_def cell_at_def sample_keys)

lemma sample_matched:
  "match_companies crm_keyed cb_keyed ''crm_company'' ''cb_company'' ''CRM_ID'' ''UUID''
     ''COMPANY_WEBSITE'' ''HOMEPAGE_URL'' =
   (\<lparr>columns = [''CRM_ID'', ''COMPANY_WEBSITE'', ''crm_company'', ''exact_match''],
      rows = [[Some ''1'', Some ''http://acme.com'', Some ''acme.com'', Some ''acme.com''],
              [Some ''2'', Some ''http://other.org'', Some ''other.org'', None]]\<rparr>,
    Inr \<lparr>columns = [''CRM_ID'', ''UUID'', ''COMPANY_WEBSITE'', ''HOMEPAGE_URL'', ''crm_company'',
                     ''cb_company''],
         rows = [[Some ''1'', Some ''9'', Some ''http://acme.com'', Some ''http://www.acme.com'',
                  Some ''acme.com'', Some ''acme.com''],
                 [Some ''1'', Some ''10'', Some ''http://acme.com'', Some ''https://acme.com/about'',
                  Some ''acme.com'', Some ''acme.com'']]\<rparr>)"
  by (simp add: match_companies_def crm_keyed_def cb_keyed_def df_empty_def get_col_def
      set_col_def cell_at_def exact_results_def merge_def select_cols_def Let_def)




text \<open>
  The claim as first stated, original columns plus the single key column, fails for the
  left table, which has the column \<^verbatim>\<open>exact_match\<close> as well.
\<close>

theorem left_table_gains_exact_match:
  "preprocess_urls (tldextract_extract psl_entries) id crm_loaded ''COMPANY_WEBSITE'' ''crm_company'' =
     Inr crm_keyed \<and>
   preprocess_urls (tldextract_extract psl_entries) id cb_sample ''HOMEPAGE_URL'' ''cb_company'' =
     Inr cb_keyed \<and>
   columns crm_loaded = [''CRM_ID'', ''COMPANY_WEBSITE''] \<and>
   columns (fst (match_companies crm_keyed cb_keyed ''crm_company'' ''cb_company'' ''CRM_ID'' ''UUID''
                   ''COMPANY_WEBSITE'' ''HOMEPAGE_URL'')) =
     [''CRM_ID'', ''COMPANY_WEBSITE'', ''crm_company'', ''exact_match'']"
  unfolding crm_loaded_keyed cb_sample_keyed sample_matched
  by (simp add: crm_loaded_def)

theorem inputs_after_matching_witness:
  "\<exists>p1 p2.
     preprocess_urls (tldextract_extract psl_entries) id crm_loaded ''COMPANY_WEBSITE''
       ''crm_company'' = Inr p1 \<and>
     preprocess_urls (tldextract_extract psl_entries) id cb_sample ''HOMEPAGE_URL''
       ''cb_company'' = Inr p2 \<and>
     map (take 2) (rows (fst (match_companies p1 p2 ''crm_company'' ''cb_company'' ''CRM_ID'' ''UUID''
                               ''COMPANY_WEBSITE'' ''HOMEPAGE_URL''))) = rows crm_loaded \<and>
     map (take 2) (rows p2) = rows cb_sample"
proof -
  have wf1: "wf_df crm_loaded" and wf2: "wf_df cb_sample"
    by (simp_all add: wf_df_def crm_loaded_def cb_sample_def)
  have ne1: "rows crm_loaded \<noteq> []" and ne2: "rows cb_sample \<noteq> []"
    by (simp_all add: crm_loaded_def cb_sample_def)
  have u1: "col_index (columns crm_loaded) ''COMPANY_WEBSITE'' = Some 1"
    and u2: "col_index (columns cb_sample) ''HOMEPAGE_URL'' = Some 1"
    by (simp_all add: crm_loaded_def cb_sample_def)
  have nn1: "\<forall>r \<in> set (rows crm_loaded). cell_at r 1 \<noteq> None"
    and nn2: "\<forall>r \<in> set (rows cb_sample). cell_at r 1 \<noteq> None"
    by (simp_all add: crm_loaded_def cb_sample_def cell_at_def)
  have f1: "''crm_company'' \<notin> set (columns crm_loaded)"
    and f2: "''cb_company'' \<notin> set (columns cb_sample)"
    and em: "''exact_match'' \<notin> set (columns crm_loaded)" "''crm_company'' \<noteq> ''exact_match''"
    by (simp_all add: crm_loaded_def cb_sample_def)
  from inputs_after_matching [where tld = "tldextract_extract psl_entries" and dec = id
      and ?id_col1.0 = "''CRM_ID''" and ?id_col2.0 = "''UUID''",
      OF wf1 wf2 ne1 ne2 u1 u2 nn1 nn2 f1 f2 em]
  obtain p1 p2 where
    "preprocess_urls (tldextract_extract psl_entries) id crm_loaded ''COMPANY_WEBSITE''
       ''crm_company'' = Inr p1"
    "preprocess_urls (tldextract_extract psl_entries) id cb_sample ''HOMEPAGE_URL''
       ''cb_company'' = Inr p2"
    "map (take (length (columns crm_loaded)))
       (rows (fst (match_companies p1 p2 ''crm_company'' ''cb_company'' ''CRM_ID'' ''UUID''
                               ''COMPANY_WEBSITE'' ''HOMEPAGE_URL''))) = rows crm_loaded"
    "map (take (length (columns cb_sample))) (rows p2) = rows cb_sample"
    by blast
  moreover have "length (columns crm_loaded) = 2" "length (columns cb_sample) = 2"
    by (simp_all add: crm_loaded_def cb_sample_def)
  ultimately show ?thesis by (intro exI [of _ p1] exI [of _ p2]) simp
qed

lemma preprocess_urls_empty:
  "rows df = [] \<Longrightarrow>
   preprocess_urls tld dec df url_column company_column =
     Inl (ValueError ''Input DataFrame is None or empty.'')"
  by (simp add: preprocess_urls_def df_empty_def)

text \<open>
  C7. When one of the two tables has no row left after the rows with a null identifier or
  URL are dropped, the operation fails on the empty input: the error for an empty table is
  logged, nothing is written (the files are as before, so neither the matched nor the
  unmatched file is written), and the matching step itself refuses empty tables with the
  same kind of error.
\<close>

theorem empty_input_abandons:
  assumes l1: "load_clean_and_rename_dataframe fs file_path1 id_col1 url_col1 rename_dict1 = Inr df1"
    and l2: "load_clean_and_rename_dataframe fs file_path2 id_col2 url_col2 rename_dict2 = Inr df2"
    and e: "rows df1 = [] \<or> rows df2 = []"
  shows "snd (process tld dec fs file_path1 file_path2 id_col1 id_col2 url_col1 url_col2
                company_col1 company_col2 matched_path unmatched_path rename_dict1 rename_dict2) = fs \<and>
         ValueError ''Input DataFrame is None or empty.'' \<in>
           set (fst (process tld dec fs file_path1 file_path2 id_col1 id_col2 url_col1 url_col2
                company_col1 company_col2 matched_path unmatched_path rename_dict1 rename_dict2)) \<and>
         snd (match_companies df1 df2 company_col1 company_col2 id_col1 id_col2 url_col1 url_col2) =
           Inl (ValueError ''One or both input DataFrames are None or empty.'')"
proof -
  let ?p1 = "preprocess_urls tld dec df1 url_col1 company_col1"
  let ?p2 = "preprocess_urls tld dec df2 url_col2 company_col2"
  let ?E = "ValueError ''Input DataFrame is None or empty.''"
  from e have pe: "?p1 = Inl ?E \<or> ?p2 = Inl ?E"
    by (auto simp: preprocess_urls_empty)
  have run: "process tld dec fs file_path1 file_path2 id_col1 id_col2 url_col1 url_col2
                company_col1 company_col2 matched_path unmatched_path rename_dict1 rename_dict2 =
             (logged ?p1 @ logged ?p2 @ [ValueError ''Error occurred during URL preprocessing''], fs)"
    using pe by (auto simp: process_def l1 l2 Let_def split: sum.splits)
  have "?E \<in> set (logged ?p1 @ logged ?p2)"
    using pe by (auto simp: logged_def)
  moreover have "snd (match_companies df1 df2 company_col1 company_col2 id_col1 id_col2 url_col1 url_col2) =
           Inl (ValueError ''One or both input DataFrames are None or empty.'')"
    using e by (auto simp: match_companies_def df_empty_def)
  ultimately show ?thesis by (simp add: run)
qed

theorem empty_input_abandons_witness:
  "snd (process (tldextract_extract psl_entries) id files_nulls ''crm.csv'' ''cb.csv''
          ''CRM_ID'' ''UUID'' ''COMPANY_WEBSITE'' ''HOMEPAGE_URL'' ''crm_company'' ''cb_company''
          ''matched.csv'' ''unmatched.csv'' [''ID'' \<mapsto> ''CRM_ID''] Map.empty) = files_nulls \<and>
   files_nulls ''matched.csv'' = None \<and> files_nulls ''unmatched.csv'' = None"
proof -
  have l1: "load_clean_and_rename_dataframe files_nulls ''crm.csv'' ''CRM_ID'' ''COMPANY_WEBSITE''
              [''ID'' \<mapsto> ''CRM_ID''] =
            Inr \<lparr>columns = [''CRM_ID'', ''COMPANY_WEBSITE''], rows = []\<rparr>"
    by (simp add: load_clean_and_rename_dataframe_def files_nulls_def crm_nulls_def cb_one_def
        df_empty_def dropna_def cell_at_def)
  have l2: "load_clean_and_rename_dataframe files_nulls ''cb.csv'' ''UUID'' ''HOMEPAGE_URL''
              Map.empty = Inr cb_one"
    by (simp add: load_clean_and_rename_dataframe_def files_nulls_def crm_nulls_def cb_one_def
        df_empty_def dropna_def cell_at_def)
  have e: "rows \<lparr>columns = [''CRM_ID'', ''COMPANY_WEBSITE''], rows = []\<rparr> = [] \<or> rows cb_one = []"
    by simp
  from empty_input_abandons [OF l1 l2 e] show ?thesis
    by (simp add: files_nulls_def)
qed

subsection \<open>The duplicate pass\<close>

lemma set_insort_row: "set (insort_row i r xs) = insert r (set xs)"
  by (induction xs) auto

lemma set_sort_values: "set (sort_values i rs) = set rs"
  by (induction rs) (simp_all add: sort_values_def set_insort_row)

text \<open>
  C1. The clean output and the ambiguous output of the duplicate pass partition the rows
  of the input: their union is the set of input rows, they share no row, an input row is
  in the ambiguous output exactly when the value of its last column occurs at least twice
  in the input, and no value of the last column found in the ambiguous output occurs in
  the clean output.
\<close>

theorem dedup_partition:
  assumes "process_matched_output df = Inr (clean, ambiguous)"
  shows "set (rows clean) \<union> set (rows ambiguous) = set (rows df) \<and>
         set (rows clean) \<inter> set (rows ambiguous) = {} \<and>
         (\<forall>r \<in> set (rows df).
            r \<in> set (rows ambiguous) \<longleftrightarrow> 2 \<le> occurrences df (grouping_value df r) df) \<and>
         (\<forall>r \<in> set (rows ambiguous). occurrences df (grouping_value df r) clean = 0)"
proof -
  let ?i = "length (columns df) - 1"
  from assms have cl: "rows clean = filter (\<lambda>r. \<not> duplicated ?i (rows df) r) (rows df)"
    and am: "rows ambiguous = sort_values ?i (filter (duplicated ?i (rows df)) (rows df))"
    by (auto simp: process_matched_output_def Let_def split: if_splits)
  have dup: "duplicated ?i (rows df) r \<longleftrightarrow> 2 \<le> occurrences df (grouping_value df r) df" for r
    by (simp add: duplicated_def occurrences_def grouping_value_def)
  have same: "duplicated ?i (rows df) r' \<longleftrightarrow> duplicated ?i (rows df) r"
    if "grouping_value df r' = grouping_value df r" for r r'
    using that by (simp add: duplicated_def grouping_value_def)
  have "occurrences df (grouping_value df r) clean = 0" if "r \<in> set (rows ambiguous)" for r
  proof -
    from that have d: "duplicated ?i (rows df) r" by (simp add: am set_sort_values)
    have "grouping_value df r' \<noteq> grouping_value df r" if r': "r' \<in> set (rows clean)" for r'
    proof
      assume "grouping_value df r' = grouping_value df r"
      from same [OF this] d have "duplicated ?i (rows df) r'" by simp
      moreover from r' have "\<not> duplicated ?i (rows df) r'" by (simp add: cl)
      ultimately show False by simp
    qed
    then show ?thesis by (simp add: occurrences_def filter_empty_conv)
  qed
  moreover have "\<forall>r \<in> set (rows df).
      r \<in> set (rows ambiguous) \<longleftrightarrow> 2 \<le> occurrences df (grouping_value df r) df"
    using dup by (simp add: am set_sort_values)
  moreover have "set (rows clean) \<union> set (rows ambiguous) = set (rows df)"
    by (auto simp: cl am set_sort_values)
  moreover have "set (rows clean) \<inter> set (rows ambiguous) = {}"
    by (auto simp: cl am set_sort_values)
  ultimately show ?thesis by blast
qed

theorem dedup_partition_witness:
  "process_matched_output matched_sample = Inr (clean_sample, ambiguous_sample) \<and>
   set (rows clean_sample) \<union> set (rows ambiguous_sample) = set (rows matched_sample) \<and>
   set (rows clean_sample) \<inter> set (rows ambiguous_sample) = {}"
proof -
  have run: "process_matched_output matched_sample = Inr (clean_sample, ambiguous_sample)"
    by (simp add: process_matched_output_def matched_sample_def clean_sample_def
        ambiguous_sample_def duplicated_def cell_at_def sort_values_def Let_def
        less_eq_char_def)
  from dedup_partition [OF run] run show ?thesis by blast
qed

end
